theory Spec2Isabelle
  imports Complex_Main
begin

chapter \<open>The model\<close>

section \<open>JavaScript values and strings\<close>

text \<open>
  The front-end is TypeScript. Its functions take values of type \<open>unknown\<close>, so the
  model has a datatype of JavaScript values. Strings are \<open>string\<close> (lists of 8-bit
  characters); case mapping and white space are the ASCII/Latin-1 part of what
  \<open>toLowerCase\<close>, \<open>trim\<close> and the regular expression class \<open>\s\<close> do.

  A number is an IEEE double: a finite value (a rational; \<open>+0\<close> and \<open>-0\<close> are not
  told apart, which none of the code below observes), \<open>NaN\<close> or an infinity.
  A \<open>Date\<close> carries its time value in milliseconds, or nothing when it is an
  Invalid Date. Every other value (plain object, function, symbol, ...) is opaque and is
  represented by what the two library calls the code makes on it do:
  \<open>JSON.stringify\<close> and \<open>String\<close>.
\<close>

datatype js_number = JSFinite rat | JSNaN | JSPosInf | JSNegInf

datatype js_error = RangeError | TypeError | SyntaxError

datatype json_outcome = JsonText string | JsonUndefined | JsonThrows

datatype js_value =
    JNull
  | JUndefined
  | JString string
  | JNumber js_number
  | JBigInt int
  | JBoolean bool
  | JDate "int option"
  | JArray "js_value list"
  | JObject json_outcome "string option"

text \<open>
  The parts of the JavaScript runtime that the code calls and that are not modelled
  digit by digit: \<open>String(n)\<close> on a number, \<open>Number(s)\<close> on a string,
  \<open>Date.prototype.toISOString\<close> on a valid time value, \<open>new RegExp(p).test(s)\<close>
  (\<open>None\<close> when \<open>p\<close> is not a regular expression and the constructor throws) and
  \<open>String(v)\<close> on an arbitrary value (which throws a \<open>TypeError\<close> on an object that
  has no conversion to a primitive).
\<close>

record js_runtime =
  number_to_string :: "js_number \<Rightarrow> string"
  string_to_number :: "string \<Rightarrow> js_number"
  to_iso_string :: "int \<Rightarrow> string"
  regexp_test :: "string \<Rightarrow> string \<Rightarrow> bool option"
  value_to_string :: "js_value \<Rightarrow> js_error + string"

definition is_js_space :: "char \<Rightarrow> bool" where
  "is_js_space c = (of_char c \<in> {9, 10, 11, 12, 13, 32, 160 :: nat})"

definition trim :: "string \<Rightarrow> string" where
  "trim s = rev (dropWhile is_js_space (rev (dropWhile is_js_space s)))"

definition to_lower_char :: "char \<Rightarrow> char" where
  "to_lower_char c =
     (let n = (of_char c :: nat) in if 65 \<le> n \<and> n \<le> 90 then char_of (n + 32) else c)"

definition to_upper_char :: "char \<Rightarrow> char" where
  "to_upper_char c =
     (let n = (of_char c :: nat) in if 97 \<le> n \<and> n \<le> 122 then char_of (n - 32) else c)"

definition toLowerCase :: "string \<Rightarrow> string" where
  "toLowerCase s = map to_lower_char s"

definition toUpperCase :: "string \<Rightarrow> string" where
  "toUpperCase s = map to_upper_char s"

fun startsWith :: "string \<Rightarrow> string \<Rightarrow> bool" where
  "startsWith s [] = True"
| "startsWith [] (c # cs) = False"
| "startsWith (d # ds) (c # cs) = (d = c \<and> startsWith ds cs)"

fun js_includes :: "string \<Rightarrow> string \<Rightarrow> bool" where
  "js_includes [] needle = (needle = [])"
| "js_includes (d # ds) needle = (startsWith (d # ds) needle \<or> js_includes ds needle)"

fun join :: "string \<Rightarrow> string list \<Rightarrow> string" where
  "join sep [] = []"
| "join sep [x] = x"
| "join sep (x # y # ys) = x @ sep @ join sep (y # ys)"

definition digit_char :: "nat \<Rightarrow> char" where
  "digit_char d = char_of (48 + d)"

function show_nat :: "nat \<Rightarrow> string" where
  "show_nat n = (if n < 10 then [digit_char n] else show_nat (n div 10) @ [digit_char (n mod 10)])"
  by pat_completeness auto
termination
  by (relation "measure id") auto

declare show_nat.simps [simp del]

definition show_int :: "int \<Rightarrow> string" where
  "show_int i = (if i < 0 then CHR ''-'' # show_nat (nat (- i)) else show_nat (nat i))"

definition bool_to_string :: "bool \<Rightarrow> string" where
  "bool_to_string b = (if b then ''true'' else ''false'')"

section \<open>Formatting a cell: \<open>formatValue\<close>\<close>

text \<open>
  \<open>formatValue\<close> of \<open>app/components/ResultTable.tsx\<close>. A call ends in one of three
  ways: it returns a string; it returns \<open>undefined\<close> (\<open>JSON.stringify\<close> of a function
  or a symbol, behind the declared return type); or it throws. \<open>toISOString\<close> throws a
  \<open>RangeError\<close> on an Invalid Date, and \<open>String(value)\<close> in the \<open>catch\<close> branch
  throws a \<open>TypeError\<close> when the object cannot be converted.

  For an array, \<open>value.map(formatValue)\<close> formats the elements from left to right, so
  the first element that throws ends the call; \<open>join\<close> then writes an element that
  is \<open>undefined\<close> as the empty string.
\<close>

datatype completion = Returns string | ReturnsUndefined | Throws js_error

fun join_element :: "completion \<Rightarrow> string" where
  "join_element (Returns s) = s"
| "join_element ReturnsUndefined = []"
| "join_element (Throws e) = []"

fun first_throw :: "completion list \<Rightarrow> js_error option" where
  "first_throw [] = None"
| "first_throw (Throws e # cs) = Some e"
| "first_throw (c # cs) = first_throw cs"

definition array_join :: "completion list \<Rightarrow> completion" where
  "array_join cs =
     (case first_throw cs of
        Some e \<Rightarrow> Throws e
      | None \<Rightarrow> Returns (join '', '' (map join_element cs)))"

fun formatValue :: "js_runtime \<Rightarrow> js_value \<Rightarrow> completion" where
  "formatValue rt JNull = Returns []"
| "formatValue rt JUndefined = Returns []"
| "formatValue rt (JString s) = Returns s"
| "formatValue rt (JNumber n) = Returns (number_to_string rt n)"
| "formatValue rt (JBigInt i) = Returns (show_int i)"
| "formatValue rt (JBoolean b) = Returns (if b then ''true'' else ''false'')"
| "formatValue rt (JDate None) = Throws RangeError"
| "formatValue rt (JDate (Some t)) = Returns (to_iso_string rt t)"
| "formatValue rt (JArray vs) = array_join (map (formatValue rt) vs)"
| "formatValue rt (JObject (JsonText s) str) = Returns s"
| "formatValue rt (JObject JsonUndefined str) = ReturnsUndefined"
| "formatValue rt (JObject JsonThrows (Some s)) = Returns s"
| "formatValue rt (JObject JsonThrows None) = Throws TypeError"

text \<open>
  The second copy of the function: the closure \<open>formatValue\<close> inside \<open>ChatPage\<close>,
  which \<open>renderSqlResult\<close> calls for every cell.
\<close>

fun formatValue_ChatPage :: "js_runtime \<Rightarrow> js_value \<Rightarrow> completion" where
  "formatValue_ChatPage rt v =
     (case v of
        JNull \<Rightarrow> Returns []
      | JUndefined \<Rightarrow> Returns []
      | JString s \<Rightarrow> Returns s
      | JNumber n \<Rightarrow> Returns (number_to_string rt n)
      | JBigInt i \<Rightarrow> Returns (show_int i)
      | JBoolean b \<Rightarrow> Returns (if b then ''true'' else ''false'')
      | JDate d \<Rightarrow> (case d of None \<Rightarrow> Throws RangeError | Some t \<Rightarrow> Returns (to_iso_string rt t))
      | JArray vs \<Rightarrow> array_join (map (formatValue_ChatPage rt) vs)
      | JObject j str \<Rightarrow>
          (case j of
             JsonText s \<Rightarrow> Returns s
           | JsonUndefined \<Rightarrow> ReturnsUndefined
           | JsonThrows \<Rightarrow> (case str of Some s \<Rightarrow> Returns s | None \<Rightarrow> Throws TypeError)))"

declare formatValue_ChatPage.simps [simp del]



text \<open>
  A runtime to evaluate the functions at concrete inputs. It prints integral numbers in
  decimal, reads a string of decimal digits as that number (anything else as \<open>NaN\<close>),
  prints the epoch for time value 0, reads a pattern as a literal substring to look
  for, \<open>(\<close> being the one pattern it refuses, and converts the primitive values to
  strings as JavaScript does.
\<close>

definition sample_number_to_string :: "js_number \<Rightarrow> string" where
  "sample_number_to_string n =
     (case n of
        JSFinite q \<Rightarrow> show_int (floor q)
      | JSNaN \<Rightarrow> ''NaN''
      | JSPosInf \<Rightarrow> ''Infinity''
      | JSNegInf \<Rightarrow> ''-Infinity'')"

definition is_digit :: "char \<Rightarrow> bool" where
  "is_digit c = (48 \<le> (of_char c :: nat) \<and> (of_char c :: nat) \<le> 57)"

definition digits_to_nat :: "string \<Rightarrow> nat" where
  "digits_to_nat s = foldl (\<lambda>acc c. 10 * acc + (of_char c - 48)) 0 s"

definition sample_string_to_number :: "string \<Rightarrow> js_number" where
  "sample_string_to_number s =
     (let t = trim s in
      if t = [] then JSFinite 0
      else if list_all is_digit t then JSFinite (of_nat (digits_to_nat t))
      else JSNaN)"

fun sample_value_to_string :: "js_value \<Rightarrow> js_error + string" where
  "sample_value_to_string JNull = Inr ''null''"
| "sample_value_to_string JUndefined = Inr ''undefined''"
| "sample_value_to_string (JString s) = Inr s"
| "sample_value_to_string (JNumber n) = Inr (sample_number_to_string n)"
| "sample_value_to_string (JBigInt i) = Inr (show_int i)"
| "sample_value_to_string (JBoolean b) = Inr (if b then ''true'' else ''false'')"
| "sample_value_to_string (JDate d) = Inr ''date''"
| "sample_value_to_string (JArray vs) = Inr ''array''"
| "sample_value_to_string (JObject j None) = Inl TypeError"
| "sample_value_to_string (JObject j (Some s)) = Inr s"

definition sample_runtime :: js_runtime where
  "sample_runtime =
     \<lparr> number_to_string = sample_number_to_string,
       string_to_number = sample_string_to_number,
       to_iso_string = (\<lambda>t. if t = 0 then ''1970-01-01T00:00:00.000Z'' else ''other''),
       regexp_test = (\<lambda>p s. if p = ''('' then None else Some (js_includes s p)),
       value_to_string = sample_value_to_string \<rparr>"

section \<open>Query responses on the client\<close>

text \<open>
  \<open>SqlResponse\<close> (\<open>SqlApiResponse\<close> in the chat page) is the JSON body of the query
  endpoint as the client types it: every field is optional. A field's \<open>type\<close> is
  \<open>string | null | undefined\<close>; \<open>None\<close> stands for both \<open>null\<close> and
  \<open>undefined\<close>, which \<open>field.type ?? undefined\<close> maps to \<open>undefined\<close>. A row is a
  \<open>Record<string, unknown>\<close>. Row counts are natural numbers.
\<close>

record TableField =
  field_name :: string
  field_type :: "string option"

type_synonym row = "(string \<times> js_value) list"

record SqlResponse =
  resp_ok :: "bool option"
  resp_fields :: "TableField list option"
  resp_rows :: "row list option"
  resp_rowCount :: "nat option"
  resp_truncated :: "bool option"
  resp_error :: "string option"
  resp_details :: "string option"

record SqlResult =
  result_fields :: "TableField list"
  rows :: "row list"
  rowCount :: nat
  truncated :: bool

definition MAX_ROWS :: nat where
  "MAX_ROWS = 50000"

definition normalizeSqlResponse :: "SqlResponse \<Rightarrow> SqlResult" where
  "normalizeSqlResponse payload =
     \<lparr> result_fields = map (\<lambda>f. \<lparr> field_name = field_name f, field_type = field_type f \<rparr>)
                  (case resp_fields payload of None \<Rightarrow> [] | Some fs \<Rightarrow> fs),
       rows = (case resp_rows payload of None \<Rightarrow> [] | Some rs \<Rightarrow> rs),
       rowCount =
         (case resp_rowCount payload of
            Some n \<Rightarrow> n
          | None \<Rightarrow> (case resp_rows payload of None \<Rightarrow> 0 | Some rs \<Rightarrow> length rs)),
       truncated = (case resp_truncated payload of None \<Rightarrow> False | Some t \<Rightarrow> t) \<rparr>"

text \<open>
  What \<open>await fetch(...)\<close> followed by \<open>response.json().catch(() => ({}))\<close> gives:
  the request is rejected (with an \<open>Error\<close> and its message, or with some other
  value), or there is a response with its \<open>ok\<close> flag and its body, \<open>None\<close> when the
  body is not JSON and \<open>{}\<close> takes its place.
\<close>

datatype 'b fetch_outcome = FetchRejected "string option" | FetchResponse bool "'b option"

definition empty_response :: SqlResponse where
  "empty_response =
     \<lparr> resp_ok = None, resp_fields = None, resp_rows = None, resp_rowCount = None,
       resp_truncated = None, resp_error = None, resp_details = None \<rparr>"

definition json_body :: "SqlResponse option \<Rightarrow> SqlResponse" where
  "json_body body = (case body of None \<Rightarrow> empty_response | Some j \<Rightarrow> j)"

text \<open>JavaScript truthiness of an optional string: present and not empty.\<close>

definition truthy :: "string option \<Rightarrow> bool" where
  "truthy s = (case s of None \<Rightarrow> False | Some t \<Rightarrow> t \<noteq> [])"

text \<open>\<open>json.error ?? json.details ?? "Query failed"\<close>\<close>

definition query_failure_message :: "SqlResponse \<Rightarrow> string" where
  "query_failure_message json =
     (case resp_error json of
        Some e \<Rightarrow> e
      | None \<Rightarrow> (case resp_details json of Some d \<Rightarrow> d | None \<Rightarrow> ''Query failed''))"

section \<open>The data page: upload and manual SQL\<close>

text \<open>
  \<open>DataPage\<close> of \<open>app/(site)/data/page.tsx\<close>. Its React state is a record; a handler
  takes the state and what its \<open>fetch\<close> gives, and returns the state after its last
  \<open>set...\<close> call. The body of an ingest response has the declared type
  \<open>IngestResponse\<close>.
\<close>

record CatalogEntry =
  table_name :: string
  columns :: string
  entry_rows :: nat

record IngestResponse =
  ingest_ok :: bool
  tables :: "CatalogEntry list"
  ingest_error :: "string option"

record data_page_state =
  selectedFile :: "string option"
  uploading :: bool
  uploadError :: "string option"
  uploadMessage :: "string option"
  catalogResult :: "SqlResult option"
  catalogError :: "string option"
  manualSql :: string
  manualResult :: "SqlResult option"
  manualError :: "string option"
  runningManualSql :: bool

definition catalog_row :: "CatalogEntry \<Rightarrow> row" where
  "catalog_row entry =
     [(''table_name'', JString (table_name entry)),
      (''columns'', JString (columns entry)),
      (''rows'', JNumber (JSFinite (of_nat (entry_rows entry))))]"

definition loaded_message :: "nat \<Rightarrow> string" where
  "loaded_message n = ''Loaded '' @ show_nat n @ '' table'' @ (if n = 1 then [] else ''s'') @ ''.''"

definition handleUpload ::
  "(string \<Rightarrow> IngestResponse fetch_outcome) \<Rightarrow> data_page_state \<Rightarrow> data_page_state" where
  "handleUpload fetch_ingest st =
     (case selectedFile st of
        None \<Rightarrow> st\<lparr> uploadError := Some ''Choose a .zip file to upload.'' \<rparr>
      | Some file \<Rightarrow>
          (let st1 = st\<lparr> uploading := True, uploadError := None,
                         uploadMessage := Some
                           ''Uploading and processing... This may take a moment for large files.'' \<rparr>
           in case fetch_ingest file of
                FetchRejected err \<Rightarrow>
                  st1\<lparr> uploadError :=
                         Some (case err of Some m \<Rightarrow> m | None \<Rightarrow> ''Unexpected upload error.''),
                       uploading := False \<rparr>
              | FetchResponse http_ok None \<Rightarrow>
                  st1\<lparr> uploadError := Some ''Ingest failed.'', uploading := False \<rparr>
              | FetchResponse http_ok (Some json) \<Rightarrow>
                  if \<not> http_ok \<or> \<not> ingest_ok json then
                    st1\<lparr> uploadError :=
                           Some (case ingest_error json of Some e \<Rightarrow> e | None \<Rightarrow> ''Ingest failed.''),
                         uploading := False \<rparr>
                  else
                    st1\<lparr> catalogResult := Some (normalizeSqlResponse
                           \<lparr> resp_ok = None,
                             resp_fields = Some
                               [\<lparr> field_name = ''table_name'', field_type = None \<rparr>,
                                \<lparr> field_name = ''columns'', field_type = None \<rparr>,
                                \<lparr> field_name = ''rows'', field_type = None \<rparr>],
                             resp_rows = Some (map catalog_row (tables json)),
                             resp_rowCount = Some (length (tables json)),
                             resp_truncated = Some False,
                             resp_error = None, resp_details = None \<rparr>),
                         catalogError := None,
                         manualResult := None,
                         manualError := None,
                         uploadMessage := Some (loaded_message (length (tables json))),
                         uploading := False \<rparr>))"

definition handleRunManualSql ::
  "(string \<Rightarrow> SqlResponse fetch_outcome) \<Rightarrow> data_page_state \<Rightarrow> data_page_state" where
  "handleRunManualSql fetch_sql st =
     (if trim (manualSql st) = [] then st\<lparr> manualError := Some ''Enter a query to run.'' \<rparr>
      else
        (let st1 = st\<lparr> runningManualSql := True, manualError := None \<rparr>
         in case fetch_sql (manualSql st) of
              FetchRejected err \<Rightarrow>
                st1\<lparr> manualError :=
                       Some (case err of Some m \<Rightarrow> m | None \<Rightarrow> ''Unable to run query.''),
                     runningManualSql := False \<rparr>
            | FetchResponse http_ok body \<Rightarrow>
                if \<not> http_ok \<or> truthy (resp_error (json_body body)) then
                  st1\<lparr> manualError := Some (query_failure_message (json_body body)),
                       runningManualSql := False \<rparr>
                else
                  st1\<lparr> manualResult := Some (normalizeSqlResponse (json_body body)),
                       runningManualSql := False \<rparr>))"

text \<open>
  What the page shows of the two upload fields: the message under
  \<open>uploadMessage && !uploadError\<close>, the error under \<open>uploadError\<close>, and the manual
  query's error under \<open>manualError\<close>.
\<close>

definition shown_upload_message :: "data_page_state \<Rightarrow> string option" where
  "shown_upload_message st =
     (if truthy (uploadMessage st) \<and> \<not> truthy (uploadError st) then uploadMessage st else None)"

definition shown_upload_error :: "data_page_state \<Rightarrow> string option" where
  "shown_upload_error st = (if truthy (uploadError st) then uploadError st else None)"

definition shown_manual_error :: "data_page_state \<Rightarrow> string option" where
  "shown_manual_error st = (if truthy (manualError st) then manualError st else None)"

section \<open>The chat page: fenced code blocks\<close>


















section \<open>The \<open>record_fact\<close> client tool of \<open>ChatKitPanel\<close>\<close>









section \<open>Validation of skill arguments\<close>

text \<open>
  \<open>validateClaudeSkillArguments\<close> and \<open>coerceClaudeSkillValue\<close> of
  \<open>ChatKitPanel\<close>, with the types of \<open>lib/claude-skills/types.ts\<close>. A skill's
  \<open>arguments\<close> is the list of its entries in the order of \<open>Object.entries\<close>. The raw
  argument is either an object that is not an array, given by its own properties, or
  anything else (\<open>undefined\<close>, \<open>null\<close>, a primitive, an array), for which
  \<open>providedObject\<close> is \<open>null\<close>.

  The call returns \<open>{ok: true, arguments}\<close> or \<open>{ok: false, error}\<close>, or it throws:
  \<open>new RegExp(schema.pattern)\<close> raises a \<open>SyntaxError\<close> on a pattern that is not a
  regular expression. The body of the loop for one entry is \<open>check_argument\<close>.
\<close>

datatype ClaudeSkillArgumentType = StringType | NumberType | BooleanType

datatype ClaudeSkillPrimitive = PString string | PNumber js_number | PBoolean bool

record ClaudeSkillArgumentSchema =
  schema_type :: ClaudeSkillArgumentType
  schema_description :: string
  schema_required :: "bool option"
  schema_default :: "ClaudeSkillPrimitive option"
  schema_enum :: "ClaudeSkillPrimitive list option"
  schema_minimum :: "js_number option"
  schema_maximum :: "js_number option"
  schema_pattern :: "string option"

record ClaudeSkillDefinition =
  slug :: string
  skill_arguments :: "(string \<times> ClaudeSkillArgumentSchema) list option"

datatype raw_arguments = RawObject "(string \<times> js_value) list" | RawOther

datatype validation =
    Ok "(string \<times> ClaudeSkillPrimitive) list"
  | Err string
  | RegExpThrows

definition is_finite :: "js_number \<Rightarrow> bool" where
  "is_finite n = (case n of JSFinite q \<Rightarrow> True | _ \<Rightarrow> False)"

fun js_less :: "js_number \<Rightarrow> js_number \<Rightarrow> bool" where
  "js_less (JSFinite a) (JSFinite b) = (a < b)"
| "js_less (JSFinite a) JSPosInf = True"
| "js_less (JSFinite a) JSNegInf = False"
| "js_less (JSFinite a) JSNaN = False"
| "js_less JSNegInf (JSFinite b) = True"
| "js_less JSNegInf JSPosInf = True"
| "js_less JSNegInf JSNegInf = False"
| "js_less JSNegInf JSNaN = False"
| "js_less JSPosInf b = False"
| "js_less JSNaN b = False"

definition primitive_value :: "ClaudeSkillPrimitive \<Rightarrow> js_value" where
  "primitive_value p =
     (case p of PString s \<Rightarrow> JString s | PNumber n \<Rightarrow> JNumber n | PBoolean b \<Rightarrow> JBoolean b)"

definition primitive_to_string :: "js_runtime \<Rightarrow> ClaudeSkillPrimitive \<Rightarrow> string" where
  "primitive_to_string rt p =
     (case p of
        PString s \<Rightarrow> s
      | PNumber n \<Rightarrow> number_to_string rt n
      | PBoolean b \<Rightarrow> bool_to_string b)"

definition type_name :: "ClaudeSkillArgumentType \<Rightarrow> string" where
  "type_name t = (case t of StringType \<Rightarrow> ''string'' | NumberType \<Rightarrow> ''number''
                  | BooleanType \<Rightarrow> ''boolean'')"

definition quoted :: "string \<Rightarrow> string" where
  "quoted name = [CHR 0x22] @ name @ [CHR 0x22]"

definition coerceClaudeSkillValue ::
  "js_runtime \<Rightarrow> ClaudeSkillArgumentSchema \<Rightarrow> js_value \<Rightarrow> ClaudeSkillPrimitive option" where
  "coerceClaudeSkillValue rt schema v =
     (case schema_type schema of
        StringType \<Rightarrow>
          (case v of
             JString s \<Rightarrow> Some (PString s)
           | JNumber n \<Rightarrow> Some (PString (number_to_string rt n))
           | JBoolean b \<Rightarrow> Some (PString (bool_to_string b))
           | _ \<Rightarrow> None)
      | NumberType \<Rightarrow>
          (case v of
             JNumber n \<Rightarrow> if is_finite n then Some (PNumber n) else None
           | JString s \<Rightarrow>
               if trim s \<noteq> [] then
                 (let parsed = string_to_number rt s
                  in if is_finite parsed then Some (PNumber parsed) else None)
               else None
           | _ \<Rightarrow> None)
      | BooleanType \<Rightarrow>
          (case v of
             JBoolean b \<Rightarrow> Some (PBoolean b)
           | JString s \<Rightarrow>
               (let normalized = toLowerCase (trim s)
                in if normalized \<in> set [''true'', ''1'', ''yes'', ''y''] then Some (PBoolean True)
                   else if normalized \<in> set [''false'', ''0'', ''no'', ''n''] then Some (PBoolean False)
                   else None)
           | JNumber n \<Rightarrow>
               if n = JSFinite 1 then Some (PBoolean True)
               else if n = JSFinite 0 then Some (PBoolean False)
               else None
           | _ \<Rightarrow> None))"

datatype entry_outcome = Skipped | Resolved ClaudeSkillPrimitive | Rejected string | Threw

definition supplied_value ::
  "(string \<times> js_value) list \<Rightarrow> string \<Rightarrow> ClaudeSkillArgumentSchema \<Rightarrow> js_value" where
  "supplied_value provided name schema =
     (case map_of provided name of
        Some v \<Rightarrow> v
      | None \<Rightarrow> (case schema_default schema of Some d \<Rightarrow> primitive_value d | None \<Rightarrow> JUndefined))"

definition check_string ::
  "js_runtime \<Rightarrow> string \<Rightarrow> ClaudeSkillArgumentSchema \<Rightarrow> string \<Rightarrow> entry_outcome" where
  "check_string rt name schema s =
     (let blank_check =
            (if schema_required schema = Some True \<and> trim s = []
             then Rejected (''Argument '' @ quoted name @ '' cannot be empty.'')
             else Resolved (PString s))
      in case schema_pattern schema of
           None \<Rightarrow> blank_check
         | Some p \<Rightarrow>
             if p = [] then blank_check
             else (case regexp_test rt p s of
                     None \<Rightarrow> Threw
                   | Some False \<Rightarrow>
                       Rejected (''Argument '' @ quoted name @ '' must match pattern '' @ p @ ''.'')
                   | Some True \<Rightarrow> blank_check))"

definition check_number ::
  "js_runtime \<Rightarrow> string \<Rightarrow> ClaudeSkillArgumentSchema \<Rightarrow> js_number \<Rightarrow> entry_outcome" where
  "check_number rt name schema n =
     (if (case schema_minimum schema of Some m \<Rightarrow> js_less n m | None \<Rightarrow> False) then
        Rejected (''Argument '' @ quoted name @ '' must be greater than or equal to '' @
                  (case schema_minimum schema of Some m \<Rightarrow> number_to_string rt m | None \<Rightarrow> []) @ ''.'')
      else if (case schema_maximum schema of Some m \<Rightarrow> js_less m n | None \<Rightarrow> False) then
        Rejected (''Argument '' @ quoted name @ '' must be less than or equal to '' @
                  (case schema_maximum schema of Some m \<Rightarrow> number_to_string rt m | None \<Rightarrow> []) @ ''.'')
      else Resolved (PNumber n))"

definition check_argument ::
  "js_runtime \<Rightarrow> (string \<times> js_value) list \<Rightarrow> string \<Rightarrow> ClaudeSkillArgumentSchema \<Rightarrow> entry_outcome" where
  "check_argument rt provided name schema =
     (let v = supplied_value provided name schema in
      if v = JUndefined \<or> v = JNull then
        (if schema_required schema = Some True
         then Rejected (''Missing required argument '' @ quoted name @ ''.'')
         else Skipped)
      else
        (case coerceClaudeSkillValue rt schema v of
           None \<Rightarrow>
             Rejected (''Argument '' @ quoted name @ '' must be a '' @
                       type_name (schema_type schema) @ ''.'')
         | Some normalized \<Rightarrow>
             if (case schema_enum schema of Some es \<Rightarrow> normalized \<notin> set es | None \<Rightarrow> False) then
               Rejected (''Argument '' @ quoted name @ '' must be one of: '' @
                         join '', '' (map (primitive_to_string rt)
                           (case schema_enum schema of Some es \<Rightarrow> es | None \<Rightarrow> [])) @ ''.'')
             else
               (case (schema_type schema, normalized) of
                  (NumberType, PNumber n) \<Rightarrow> check_number rt name schema n
                | (StringType, PString s) \<Rightarrow> check_string rt name schema s
                | _ \<Rightarrow> Resolved normalized)))"

fun validate_entries ::
  "js_runtime \<Rightarrow> (string \<times> js_value) list \<Rightarrow> (string \<times> ClaudeSkillArgumentSchema) list \<Rightarrow>
   (string \<times> ClaudeSkillPrimitive) list \<Rightarrow> validation" where
  "validate_entries rt provided [] resolved = Ok resolved"
| "validate_entries rt provided ((name, schema) # rest) resolved =
     (case check_argument rt provided name schema of
        Skipped \<Rightarrow> validate_entries rt provided rest resolved
      | Resolved normalized \<Rightarrow> validate_entries rt provided rest (resolved @ [(name, normalized)])
      | Rejected message \<Rightarrow> Err message
      | Threw \<Rightarrow> RegExpThrows)"

definition validateClaudeSkillArguments ::
  "js_runtime \<Rightarrow> ClaudeSkillDefinition \<Rightarrow> raw_arguments \<Rightarrow> validation" where
  "validateClaudeSkillArguments rt skill raw =
     (let providedObject = (case raw of RawObject props \<Rightarrow> Some props | RawOther \<Rightarrow> None) in
      case skill_arguments skill of
        None \<Rightarrow>
          (case providedObject of
             Some (p # ps) \<Rightarrow> Err ''This skill does not accept arguments.''
           | _ \<Rightarrow> Ok [])
      | Some [] \<Rightarrow>
          (case providedObject of
             Some (p # ps) \<Rightarrow> Err ''This skill does not accept arguments.''
           | _ \<Rightarrow> Ok [])
      | Some (entry # entries) \<Rightarrow>
          validate_entries rt (case providedObject of Some props \<Rightarrow> props | None \<Rightarrow> [])
            (entry # entries) [])"

subsection \<open>The conditions of acceptance, as the specification words them\<close>

text \<open>
  A required argument is present; a present value coerces to the declared type; the
  coerced value is in the declared enum, not below the declared minimum and not above the
  declared maximum (constraints on numbers), matches the declared pattern (a constraint on
  strings; an empty pattern is no pattern), and a required string is not blank. An
  argument's value is the one provided under its name, else the schema's default.
\<close>

definition is_present :: "js_value \<Rightarrow> bool" where
  "is_present v = (v \<noteq> JUndefined \<and> v \<noteq> JNull)"

definition satisfies_enum :: "ClaudeSkillArgumentSchema \<Rightarrow> ClaudeSkillPrimitive \<Rightarrow> bool" where
  "satisfies_enum schema p = (case schema_enum schema of Some es \<Rightarrow> p \<in> set es | None \<Rightarrow> True)"

definition satisfies_minimum :: "ClaudeSkillArgumentSchema \<Rightarrow> ClaudeSkillPrimitive \<Rightarrow> bool" where
  "satisfies_minimum schema p =
     (case (schema_minimum schema, p) of (Some m, PNumber n) \<Rightarrow> \<not> js_less n m | _ \<Rightarrow> True)"

definition satisfies_maximum :: "ClaudeSkillArgumentSchema \<Rightarrow> ClaudeSkillPrimitive \<Rightarrow> bool" where
  "satisfies_maximum schema p =
     (case (schema_maximum schema, p) of (Some m, PNumber n) \<Rightarrow> \<not> js_less m n | _ \<Rightarrow> True)"

definition satisfies_pattern ::
  "js_runtime \<Rightarrow> ClaudeSkillArgumentSchema \<Rightarrow> ClaudeSkillPrimitive \<Rightarrow> bool" where
  "satisfies_pattern rt schema p =
     (case (schema_pattern schema, p) of
        (Some pat, PString s) \<Rightarrow> pat = [] \<or> regexp_test rt pat s = Some True
      | _ \<Rightarrow> True)"

definition non_blank_if_required :: "ClaudeSkillArgumentSchema \<Rightarrow> ClaudeSkillPrimitive \<Rightarrow> bool" where
  "non_blank_if_required schema p =
     (case p of PString s \<Rightarrow> schema_required schema = Some True \<longrightarrow> trim s \<noteq> [] | _ \<Rightarrow> True)"

definition argument_accepted ::
  "js_runtime \<Rightarrow> (string \<times> js_value) list \<Rightarrow> string \<times> ClaudeSkillArgumentSchema \<Rightarrow> bool" where
  "argument_accepted rt provided entry =
     (let v = supplied_value provided (fst entry) (snd entry) in
      (schema_required (snd entry) = Some True \<longrightarrow> is_present v) \<and>
      (is_present v \<longrightarrow>
         (case coerceClaudeSkillValue rt (snd entry) v of
            None \<Rightarrow> False
          | Some p \<Rightarrow>
              satisfies_enum (snd entry) p \<and> satisfies_minimum (snd entry) p \<and>
              satisfies_maximum (snd entry) p \<and> satisfies_pattern rt (snd entry) p \<and>
              non_blank_if_required (snd entry) p)))"

definition provided_properties :: "raw_arguments \<Rightarrow> (string \<times> js_value) list" where
  "provided_properties raw = (case raw of RawObject props \<Rightarrow> props | RawOther \<Rightarrow> [])"

definition declared_schemas ::
  "ClaudeSkillDefinition \<Rightarrow> (string \<times> ClaudeSkillArgumentSchema) list" where
  "declared_schemas skill = (case skill_arguments skill of None \<Rightarrow> [] | Some schemas \<Rightarrow> schemas)"

definition arguments_accepted :: "js_runtime \<Rightarrow> ClaudeSkillDefinition \<Rightarrow> raw_arguments \<Rightarrow> bool" where
  "arguments_accepted rt skill raw =
     (if declared_schemas skill = [] then provided_properties raw = []
      else list_all (argument_accepted rt (provided_properties raw)) (declared_schemas skill))"

definition patterns_valid :: "js_runtime \<Rightarrow> ClaudeSkillDefinition \<Rightarrow> bool" where
  "patterns_valid rt skill =
     (\<forall>entry \<in> set (declared_schemas skill). \<forall>pat s.
        schema_pattern (snd entry) = Some pat \<longrightarrow> regexp_test rt pat s \<noteq> None)"

section \<open>The Query Guard\<close>

text \<open>
  Modelled from the spec: the Query Guard (section 4.4). The route behind the query
  endpoint \<open>/api/sql\<close> is not among the source files; the two pages only call it. The
  errors are those of the specification's taxonomy.
\<close>

datatype query_error = ValidationRejected | Timeout | ExecutionError string

definition forbidden_keywords :: "string list" where
  "forbidden_keywords =
     [''INSERT'', ''UPDATE'', ''DELETE'', ''DROP'', ''ALTER'', ''CREATE'', ''ATTACH'', ''COPY'',
      ''PRAGMA'']"

text \<open>
  Modelled from the spec: comments, for the rule that rejects input made of comments only.
  A line comment runs from \<open>--\<close> to the end of the line, a block comment from
  \<open>/*\<close> to \<open>*/\<close>; each is replaced by a space.
\<close>

fun skip_line :: "string \<Rightarrow> string" where
  "skip_line [] = []"
| "skip_line (c # cs) = (if c = CHR 0x0A then cs else skip_line cs)"

fun skip_block :: "string \<Rightarrow> string" where
  "skip_block [] = []"
| "skip_block [c] = []"
| "skip_block (a # b # cs) = (if a = CHR ''*'' \<and> b = CHR ''/'' then cs else skip_block (b # cs))"

lemma length_skip_line: "length (skip_line s) \<le> length s"
  by (induction s) auto

lemma length_skip_block: "length (skip_block s) \<le> length s"
  by (induction s rule: skip_block.induct) auto

lemma skip_line_shorter: "length (skip_line s) < Suc (Suc (length s))"
  using length_skip_line [of s] by simp

lemma skip_block_shorter: "length (skip_block s) < Suc (Suc (length s))"
  using length_skip_block [of s] by simp

function strip_comments :: "string \<Rightarrow> string" where
  "strip_comments [] = []"
| "strip_comments [c] = [c]"
| "strip_comments (a # b # cs) =
     (if a = CHR ''-'' \<and> b = CHR ''-'' then CHR '' '' # strip_comments (skip_line cs)
      else if a = CHR ''/'' \<and> b = CHR ''*'' then CHR '' '' # strip_comments (skip_block cs)
      else a # strip_comments (b # cs))"
  by pat_completeness auto
termination
  by (relation "measure length") (simp_all add: skip_line_shorter skip_block_shorter)

text \<open>
  Modelled from the spec: the validation algorithm. A statement is read-only when, with
  its comments removed, it is not empty, its first word is \<open>SELECT\<close>, or \<open>WITH\<close>
  with a \<open>SELECT\<close> after it, no statement follows a separator \<open>;\<close>, and the text as
  submitted contains none of the write/DDL/DML keywords, in any letter case and at any
  position (also inside a comment or a longer word: the guard fails closed).
\<close>

definition is_word_char :: "char \<Rightarrow> bool" where
  "is_word_char c =
     (let n = (of_char c :: nat) in
      (65 \<le> n \<and> n \<le> 90) \<or> (97 \<le> n \<and> n \<le> 122) \<or> (48 \<le> n \<and> n \<le> 57) \<or> n = 95)"

definition statement_kind_ok :: "string \<Rightarrow> bool" where
  "statement_kind_ok body =
     (let first_word = toUpperCase (takeWhile is_word_char body) in
      first_word = ''SELECT'' \<or> (first_word = ''WITH'' \<and> js_includes (toUpperCase body) ''SELECT''))"

definition has_forbidden_keyword :: "string \<Rightarrow> bool" where
  "has_forbidden_keyword sqlText = list_ex (js_includes (toUpperCase sqlText)) forbidden_keywords"

definition has_statement_chain :: "string \<Rightarrow> bool" where
  "has_statement_chain body =
     (case dropWhile (\<lambda>c. c \<noteq> CHR '';'') body of [] \<Rightarrow> False | c # rest \<Rightarrow> trim rest \<noteq> [])"

definition is_read_only :: "string \<Rightarrow> bool" where
  "is_read_only sqlText =
     (let body = trim (strip_comments sqlText) in
      body \<noteq> [] \<and> statement_kind_ok body \<and> \<not> has_forbidden_keyword sqlText \<and>
      \<not> has_statement_chain body)"

text \<open>
  Modelled from the spec: \<open>execute(sqlText)\<close>. The store and its SQL engine are a
  parameter: the engine takes the statement and the store, and gives the store back with
  the matched rows, an error of its own, or nothing within the 10 seconds. A statement
  that is not read-only is rejected before the engine is called. Of the matched rows the
  first \<open>MAX_ROWS\<close> are returned; \<open>rowCount\<close> is the number of rows matched.
\<close>

datatype engine_outcome =
    EngineRows "TableField list" "row list"
  | EngineError string
  | EngineTimeout

definition execute ::
  "(string \<Rightarrow> 's \<Rightarrow> engine_outcome \<times> 's) \<Rightarrow> string \<Rightarrow> 's \<Rightarrow> (query_error + SqlResult) \<times> 's" where
  "execute engine sqlText store =
     (if \<not> is_read_only sqlText then (Inl ValidationRejected, store)
      else
        (case engine sqlText store of
           (EngineTimeout, store') \<Rightarrow> (Inl Timeout, store')
         | (EngineError message, store') \<Rightarrow> (Inl (ExecutionError message), store')
         | (EngineRows fs rs, store') \<Rightarrow>
             (Inr \<lparr> result_fields = fs, rows = take MAX_ROWS rs, rowCount = length rs,
                    truncated = (length rs > MAX_ROWS) \<rparr>, store')))"

text \<open>
  Modelled from the spec: the response of the query endpoint (section 6). An engine error
  is surfaced with the engine's message; the other two errors by their names.
\<close>

definition error_text :: "query_error \<Rightarrow> string" where
  "error_text e =
     (case e of
        ValidationRejected \<Rightarrow> ''ValidationRejected''
      | Timeout \<Rightarrow> ''Timeout''
      | ExecutionError message \<Rightarrow> message)"

definition query_endpoint ::
  "(string \<Rightarrow> 's \<Rightarrow> engine_outcome \<times> 's) \<Rightarrow> string \<Rightarrow> 's \<Rightarrow> SqlResponse \<times> 's" where
  "query_endpoint engine sqlText store =
     (case execute engine sqlText store of
        (Inl e, store') \<Rightarrow>
          (empty_response \<lparr> resp_ok := Some False, resp_error := Some (error_text e) \<rparr>, store')
      | (Inr result, store') \<Rightarrow>
          (\<lparr> resp_ok = Some True, resp_fields = Some (result_fields result),
             resp_rows = Some (rows result), resp_rowCount = Some (rowCount result),
             resp_truncated = Some (truncated result), resp_error = None, resp_details = None \<rparr>,
           store'))"

section \<open>The Archive Ingestor and the catalog\<close>

text \<open>
  Modelled from the spec: the Archive Ingestor, the Schema Normalizer and the Catalog
  Manager (sections 3 and 4.1 to 4.3). The route behind the ingest endpoint
  \<open>/api/ingest\<close> is not among the source files; the data page only calls it.

  An archive that unpacks is the list of its members, each a workbook with its sheets or
  a member of no supported format; a sheet is its name, its header row and the data rows
  after it, in source order. A table has its column names and rows of text. The store
  holds the data tables by name and the rows of \<open>_catalog\<close> by table name. How a
  table name is made safe, how columns are named, how a cell becomes text and whether the
  storage takes a write are parameters.
\<close>

record sheet =
  sheet_name :: string
  sheet_header :: "js_value list"
  sheet_rows :: "js_value list list"

datatype archive_member = Workbook "sheet list" | UnsupportedMember

record data_table =
  table_columns :: "string list"
  table_rows :: "string list list"

record store =
  data_tables :: "string \<rightharpoonup> data_table"
  catalog :: "string \<rightharpoonup> CatalogEntry"

record ingest_env =
  sanitize_name :: "string \<Rightarrow> string"
  column_names :: "js_value list \<Rightarrow> string list"
  cell_text :: "js_value \<Rightarrow> string"
  storage_accepts :: "store \<Rightarrow> string \<Rightarrow> bool"

text \<open>
  Modelled from the spec: the global cap on the rows of one run, the normalisation of a
  row to the header's width (padded with empty strings, cut when longer), and the catalog
  row of a table.
\<close>

definition INGEST_ROW_CAP :: nat where
  "INGEST_ROW_CAP = 2000000"

definition normalize_row :: "nat \<Rightarrow> string list \<Rightarrow> string list" where
  "normalize_row width cells = take width (cells @ replicate (width - length cells) [])"

definition normalize_sheet :: "ingest_env \<Rightarrow> js_value list \<Rightarrow> js_value list list \<Rightarrow> data_table" where
  "normalize_sheet env header data =
     \<lparr> table_columns = column_names env header,
       table_rows = map (\<lambda>r. normalize_row (length header) (map (cell_text env) r)) data \<rparr>"

definition catalog_entry_of :: "string \<Rightarrow> data_table \<Rightarrow> CatalogEntry" where
  "catalog_entry_of name t =
     \<lparr> table_name = name, columns = join '', '' (table_columns t),
       entry_rows = length (table_rows t) \<rparr>"

text \<open>
  Modelled from the spec: \<open>upsert\<close> replaces or inserts the catalog row of a table, and
  a sheet's table is written together with its catalog row, in one step: a storage that
  refuses the write leaves the store as it was.
\<close>

definition upsert :: "store \<Rightarrow> CatalogEntry \<Rightarrow> store" where
  "upsert st entry = st\<lparr> catalog := (catalog st)(table_name entry \<mapsto> entry) \<rparr>"

definition materialize :: "ingest_env \<Rightarrow> store \<Rightarrow> string \<Rightarrow> data_table \<Rightarrow> store option" where
  "materialize env st name t =
     (if storage_accepts env st name
      then Some (upsert (st\<lparr> data_tables := (data_tables st)(name \<mapsto> t) \<rparr>) (catalog_entry_of name t))
      else None)"

text \<open>
  Modelled from the spec: one ingestion run. The sheets are taken in archive order with
  the rows still allowed by the cap. A sheet gives its rows up to that budget; when it has
  more, the run stops there, marked as cut. A write that the storage refuses aborts the
  run. The run answers \<open>ok: true\<close> with the catalog rows it produced, unless it
  produced none, the archive did not unpack, or it was aborted.
\<close>

datatype run_outcome = RunFinished store "CatalogEntry list" bool | RunAborted store

fun ingest_sheets ::
  "ingest_env \<Rightarrow> nat \<Rightarrow> sheet list \<Rightarrow> store \<Rightarrow> CatalogEntry list \<Rightarrow> run_outcome" where
  "ingest_sheets env budget [] st produced = RunFinished st produced False"
| "ingest_sheets env budget (sh # rest) st produced =
     (let name = sanitize_name env (sheet_name sh);
          t = normalize_sheet env (sheet_header sh) (take budget (sheet_rows sh))
      in case materialize env st name t of
           None \<Rightarrow> RunAborted st
         | Some st' \<Rightarrow>
             if length (sheet_rows sh) > budget
             then RunFinished st' (produced @ [catalog_entry_of name t]) True
             else ingest_sheets env (budget - length (sheet_rows sh)) rest st'
                    (produced @ [catalog_entry_of name t]))"

definition member_sheets :: "archive_member \<Rightarrow> sheet list" where
  "member_sheets m = (case m of Workbook shs \<Rightarrow> shs | UnsupportedMember \<Rightarrow> [])"

definition ingest_failure :: "string \<Rightarrow> IngestResponse" where
  "ingest_failure message = \<lparr> ingest_ok = False, tables = [], ingest_error = Some message \<rparr>"

definition ingest ::
  "ingest_env \<Rightarrow> archive_member list option \<Rightarrow> store \<Rightarrow> IngestResponse \<times> store" where
  "ingest env archive st =
     (case archive of
        None \<Rightarrow> (ingest_failure ''InvalidArchive'', st)
      | Some members \<Rightarrow>
          (case ingest_sheets env INGEST_ROW_CAP (concat (map member_sheets members)) st [] of
             RunAborted st' \<Rightarrow> (ingest_failure ''StorageWriteFailure'', st')
           | RunFinished st' produced capped \<Rightarrow>
               if produced = [] then (ingest_failure ''No tables were produced.'', st')
               else (\<lparr> ingest_ok = True, tables = produced, ingest_error = None \<rparr>, st')))"



definition catalog_consistent :: "store \<Rightarrow> bool" where
  "catalog_consistent st = (dom (catalog st) = dom (data_tables st))"

definition final_store :: "run_outcome \<Rightarrow> store" where
  "final_store outcome = (case outcome of RunFinished st produced capped \<Rightarrow> st | RunAborted st \<Rightarrow> st)"



section \<open>Sample inputs\<close>

definition sample_schema :: "ClaudeSkillArgumentType \<Rightarrow> ClaudeSkillArgumentSchema" where
  "sample_schema t =
     \<lparr> schema_type = t, schema_description = ''an argument'', schema_required = None,
       schema_default = None, schema_enum = None, schema_minimum = None,
       schema_maximum = None, schema_pattern = None \<rparr>"

definition sample_skill :: ClaudeSkillDefinition where
  "sample_skill =
     \<lparr> slug = ''sales-summary'',
       skill_arguments = Some
         [(''region'', (sample_schema StringType)
             \<lparr> schema_required := Some True, schema_pattern := Some ''o'' \<rparr>),
          (''limit'', (sample_schema NumberType)
             \<lparr> schema_default := Some (PNumber (JSFinite 10)),
               schema_minimum := Some (JSFinite 1), schema_maximum := Some (JSFinite 100) \<rparr>),
          (''detailed'', (sample_schema BooleanType)
             \<lparr> schema_enum := Some [PBoolean True, PBoolean False] \<rparr>)] \<rparr>"

definition sample_skill_bad_pattern :: ClaudeSkillDefinition where
  "sample_skill_bad_pattern =
     \<lparr> slug = ''lookup'',
       skill_arguments = Some
         [(''code'', (sample_schema StringType) \<lparr> schema_pattern := Some ''('' \<rparr>)] \<rparr>"

definition sample_page_state :: data_page_state where
  "sample_page_state =
     \<lparr> selectedFile = Some ''books.zip'', uploading = False, uploadError = None,
       uploadMessage = None, catalogResult = None, catalogError = None,
       manualSql = ''SELECT * FROM missing'', manualResult = None, manualError = None,
       runningManualSql = False \<rparr>"

definition sample_ingest_success :: IngestResponse where
  "sample_ingest_success =
     \<lparr> ingest_ok = True,
       tables = [\<lparr> table_name = ''orders'', columns = ''id, total'', entry_rows = 3 \<rparr>,
                 \<lparr> table_name = ''clients'', columns = ''id, name'', entry_rows = 2 \<rparr>],
       ingest_error = None \<rparr>"

definition sample_ingest_failure :: IngestResponse where
  "sample_ingest_failure =
     \<lparr> ingest_ok = False, tables = [], ingest_error = Some ''No workbooks found in archive.'' \<rparr>"

definition sample_query_failure :: SqlResponse where
  "sample_query_failure = empty_response\<lparr> resp_error := Some ''Table missing does not exist'' \<rparr>"



definition sample_ingest_env :: ingest_env where
  "sample_ingest_env =
     \<lparr> sanitize_name = (\<lambda>name. name),
       column_names = map (\<lambda>v. case v of JString s \<Rightarrow> s | _ \<Rightarrow> ''column''),
       cell_text = (\<lambda>v. case v of JString s \<Rightarrow> s | _ \<Rightarrow> []),
       storage_accepts = (\<lambda>st name. True) \<rparr>"

definition empty_store :: store where
  "empty_store = \<lparr> data_tables = Map.empty, catalog = Map.empty \<rparr>"

definition sample_sheet :: "string \<Rightarrow> nat \<Rightarrow> sheet" where
  "sample_sheet name n =
     \<lparr> sheet_name = name, sheet_header = [JString ''Name'', JString ''Qty''],
       sheet_rows = replicate n [JString ''Widget'', JString ''3''] \<rparr>"

chapter \<open>The properties\<close>

section \<open>The Query Guard rejects writes and caps results\<close>

lemma startsWith_append: "startsWith (needle @ rest) needle"
  by (induction needle) auto

lemma startsWith_includes: "startsWith s needle \<Longrightarrow> js_includes s needle"
  by (cases s; cases needle) auto

lemma js_includes_append: "js_includes (front @ needle @ rest) needle"
proof (induction front)
  case Nil
  then show ?case by (simp add: startsWith_includes startsWith_append)
next
  case (Cons c front)
  then show ?case by simp
qed

lemma forbidden_not_read_only:
  assumes "kw \<in> set forbidden_keywords" and "toUpperCase occurrence = kw"
  shows "\<not> is_read_only (front @ occurrence @ rest)"
proof -
  have "toUpperCase (front @ occurrence @ rest) = toUpperCase front @ kw @ toUpperCase rest"
    using assms(2) by (simp add: toUpperCase_def)
  then have "js_includes (toUpperCase (front @ occurrence @ rest)) kw"
    by (simp add: js_includes_append)
  then have "has_forbidden_keyword (front @ occurrence @ rest)"
    using assms(1) unfolding has_forbidden_keyword_def list_ex_iff by blast
  then show ?thesis
    by (simp add: is_read_only_def Let_def)
qed

text \<open>
  Claim C1. Let the submitted text contain, at any position, an occurrence of one of the
  keywords \<open>INSERT\<close>, \<open>UPDATE\<close>, \<open>DELETE\<close>, \<open>DROP\<close>, \<open>ALTER\<close>, \<open>CREATE\<close>,
  \<open>ATTACH\<close>, \<open>COPY\<close>, \<open>PRAGMA\<close> in any letter case. Then \<open>execute\<close> returns
  \<open>ValidationRejected\<close> and the store is the one it was given, whatever the engine
  would have done with the statement: the engine is not called. The endpoint answers
  \<open>ok: false\<close> with the error.
\<close>

theorem query_guard_rejects_writes:
  assumes "kw \<in> set forbidden_keywords" and "toUpperCase occurrence = kw"
  shows "execute engine (front @ occurrence @ rest) store = (Inl ValidationRejected, store) \<and>
         query_endpoint engine (front @ occurrence @ rest) store =
           (empty_response \<lparr> resp_ok := Some False,
                             resp_error := Some ''ValidationRejected'' \<rparr>, store)"
  using forbidden_not_read_only [OF assms]
  by (simp add: execute_def query_endpoint_def error_text_def)

theorem query_guard_rejects_writes_witness:
  "execute (\<lambda>q tables. (EngineRows [] [], [])) ''select 1; Drop Table orders'' [''orders''] =
     (Inl ValidationRejected, [''orders''])"
proof -
  have kw: "''DROP'' \<in> set forbidden_keywords"
    by (simp add: forbidden_keywords_def)
  have occ: "toUpperCase ''Drop'' = ''DROP''"
    by code_simp
  from query_guard_rejects_writes [OF kw occ, of "\<lambda>q tables. (EngineRows [] [], [])"
      "''select 1; ''" "'' Table orders''" "[''orders'']"]
  show ?thesis by simp
qed

lemma rebuild_fields:
  "map (\<lambda>f. \<lparr> field_name = field_name f, field_type = field_type f \<rparr>) fs = (fs :: TableField list)"
  by (induction fs) auto

text \<open>
  Claim C2. For a statement that passes validation and for which the engine matches the
  rows \<open>matched\<close>, the result that the client reads from the endpoint's response
  (\<open>normalizeSqlResponse\<close>) is the result of \<open>execute\<close>; its rows are
  \<open>min rowCount MAX_ROWS\<close> many; \<open>truncated\<close> holds exactly when more than 50000
  rows matched; with at most 50000 rows matched all of them are returned,
  \<open>truncated\<close> is false and \<open>rowCount\<close> is their number; with more, the first
  50000 are returned and \<open>truncated\<close> is true.
\<close>

theorem query_result_truncation:
  assumes "is_read_only sqlText"
    and "engine sqlText store = (EngineRows fs matched, store')"
  shows "fst (execute engine sqlText store) =
           Inr (normalizeSqlResponse (fst (query_endpoint engine sqlText store))) \<and>
         length (rows (normalizeSqlResponse (fst (query_endpoint engine sqlText store)))) =
           min (rowCount (normalizeSqlResponse (fst (query_endpoint engine sqlText store)))) MAX_ROWS \<and>
         truncated (normalizeSqlResponse (fst (query_endpoint engine sqlText store))) =
           (length matched > 50000) \<and>
         rowCount (normalizeSqlResponse (fst (query_endpoint engine sqlText store))) =
           length matched \<and>
         (length matched \<le> 50000 \<longrightarrow>
            \<not> truncated (normalizeSqlResponse (fst (query_endpoint engine sqlText store))) \<and>
            rowCount (normalizeSqlResponse (fst (query_endpoint engine sqlText store))) = length matched \<and>
            rows (normalizeSqlResponse (fst (query_endpoint engine sqlText store))) = matched) \<and>
         (length matched > 50000 \<longrightarrow>
            truncated (normalizeSqlResponse (fst (query_endpoint engine sqlText store))) \<and>
            length (rows (normalizeSqlResponse (fst (query_endpoint engine sqlText store)))) = 50000 \<and>
            rows (normalizeSqlResponse (fst (query_endpoint engine sqlText store))) =
              take 50000 matched)"
proof -
  have run: "execute engine sqlText store =
      (Inr \<lparr> result_fields = fs, rows = take MAX_ROWS matched, rowCount = length matched,
             truncated = (length matched > MAX_ROWS) \<rparr>, store')"
    using assms by (simp add: execute_def)
  have shown: "normalizeSqlResponse (fst (query_endpoint engine sqlText store)) =
      \<lparr> result_fields = fs, rows = take MAX_ROWS matched, rowCount = length matched,
        truncated = (length matched > MAX_ROWS) \<rparr>"
    by (simp add: query_endpoint_def run normalizeSqlResponse_def rebuild_fields)
  show ?thesis
    unfolding shown by (simp add: run MAX_ROWS_def min_def)
qed

theorem query_result_truncation_witness:
  "length (rows (normalizeSqlResponse (fst (query_endpoint
       (\<lambda>q (s::unit). (EngineRows [] (replicate 50001 []), s)) ''SELECT * FROM orders'' ())))) = 50000 \<and>
   truncated (normalizeSqlResponse (fst (query_endpoint
       (\<lambda>q (s::unit). (EngineRows [] (replicate 50001 []), s)) ''SELECT * FROM orders'' ()))) \<and>
   rowCount (normalizeSqlResponse (fst (query_endpoint
       (\<lambda>q (s::unit). (EngineRows [] (replicate 50001 []), s)) ''SELECT * FROM orders'' ()))) = 50001"
proof -
  have ro: "is_read_only ''SELECT * FROM orders''"
    by code_simp
  have big: "length (replicate 50001 ([] :: row)) > 50000"
    by simp
  from query_result_truncation [OF ro, of "\<lambda>q (s::unit). (EngineRows [] (replicate 50001 []), s)"
      "()" "[]" "replicate 50001 []" "()"] big
  show ?thesis
    by (simp add: MAX_ROWS_def)
qed

section \<open>Ingestion: the row cap and the catalog\<close>

lemma materialize_Some:
  assumes "materialize env st name t = Some st'"
  shows "data_tables st' = (data_tables st)(name \<mapsto> t)"
    and "catalog st' = (catalog st)(name \<mapsto> catalog_entry_of name t)"
  using assms
  by (auto simp: materialize_def upsert_def catalog_entry_of_def split: if_splits)

lemma materialize_consistent:
  assumes "materialize env st name t = Some st'" and "catalog_consistent st"
  shows "catalog_consistent st'"
  using assms(2) materialize_Some [OF assms(1)] by (simp add: catalog_consistent_def)

lemma ingest_sheets_consistent:
  "catalog_consistent st \<Longrightarrow>
   catalog_consistent (final_store (ingest_sheets env budget sheets st produced))"
proof (induction sheets arbitrary: budget st produced)
  case Nil
  then show ?case by (simp add: final_store_def)
next
  case (Cons sh rest)
  let ?name = "sanitize_name env (sheet_name sh)"
  let ?t = "normalize_sheet env (sheet_header sh) (take budget (sheet_rows sh))"
  show ?case
  proof (cases "materialize env st ?name ?t")
    case None
    then show ?thesis using Cons.prems by (simp add: final_store_def Let_def)
  next
    case (Some st')
    then have "catalog_consistent st'"
      using Cons.prems materialize_consistent by blast
    then show ?thesis
      using Some Cons.IH [of st'] by (simp add: final_store_def Let_def)
  qed
qed

lemma ingest_store:
  "snd (ingest env archive st) =
     (case archive of
        None \<Rightarrow> st
      | Some members \<Rightarrow>
          final_store (ingest_sheets env INGEST_ROW_CAP (concat (map member_sheets members)) st []))"
  by (simp add: ingest_def final_store_def split: option.splits run_outcome.splits)

text \<open>
  Claim C4. If the catalog has a row for exactly the tables of the store before an
  ingestion run, it has so after the run, whether the run succeeded, was cut at the cap,
  was aborted by the storage or never started: a name has a catalog row if and only if a
  table of that name is materialized.
\<close>

theorem catalog_matches_tables:
  assumes "catalog_consistent st"
  shows "catalog_consistent (snd (ingest env archive st)) \<and>
         (\<forall>name. name \<in> dom (catalog (snd (ingest env archive st))) \<longleftrightarrow>
                 name \<in> dom (data_tables (snd (ingest env archive st))))"
proof -
  have "catalog_consistent (snd (ingest env archive st))"
    using assms by (simp add: ingest_store ingest_sheets_consistent split: option.splits)
  then show ?thesis by (simp add: catalog_consistent_def)
qed






theorem catalog_matches_tables_witness:
  "catalog_consistent empty_store \<and>
   catalog_consistent (snd (ingest sample_ingest_env
     (Some [UnsupportedMember, Workbook [sample_sheet ''orders'' 2, sample_sheet ''clients'' 1]])
     empty_store)) \<and>
   dom (catalog (snd (ingest sample_ingest_env
     (Some [UnsupportedMember, Workbook [sample_sheet ''orders'' 2, sample_sheet ''clients'' 1]])
     empty_store))) = {''orders'', ''clients''}"
proof -
  let ?archive = "Some [UnsupportedMember, Workbook [sample_sheet ''orders'' 2, sample_sheet ''clients'' 1]]"
  have start: "catalog_consistent empty_store"
    by (simp add: catalog_consistent_def empty_store_def)
  have names: "dom (catalog (snd (ingest sample_ingest_env ?archive empty_store))) =
      {''orders'', ''clients''}"
    by (auto simp: ingest_def member_sheets_def sample_sheet_def sample_ingest_env_def
        materialize_def upsert_def catalog_entry_of_def empty_store_def INGEST_ROW_CAP_def Let_def)
  from catalog_matches_tables [OF start, of sample_ingest_env ?archive] names start
  show ?thesis by simp
qed

section \<open>Properties of \<open>formatValue\<close>\<close>







text \<open>
  Claim C10. The \<open>formatValue\<close> of the \<open>ResultTable\<close> component and the
  \<open>formatValue\<close> closure of the chat page agree on every value: same string, same
  \<open>undefined\<close>, same exception.
\<close>

theorem formatValue_copies_equal: "formatValue_ChatPage rt v = formatValue rt v"
proof (induction rt v rule: formatValue.induct)
  case (9 rt vs)
  then have elements: "map (formatValue_ChatPage rt) vs = map (formatValue rt) vs"
    by simp
  show ?case
    by (subst formatValue_ChatPage.simps) (simp add: elements)
qed (simp_all add: formatValue_ChatPage.simps)

section \<open>Dispatch of code blocks\<close>


















section \<open>Feedback of the data page\<close>

lemma handleUpload_success:
  assumes "selectedFile st = Some zipfile"
    and "fetch_ingest zipfile = FetchResponse True (Some json)"
    and "ingest_ok json"
  shows "uploadMessage (handleUpload fetch_ingest st) = Some (loaded_message (length (tables json)))"
    and "uploadError (handleUpload fetch_ingest st) = None"
    and "\<not> uploading (handleUpload fetch_ingest st)"
  using assms by (simp_all add: handleUpload_def)

lemma loaded_message_not_empty: "loaded_message n \<noteq> []"
  by (simp add: loaded_message_def)

lemma handleUpload_failure:
  assumes "selectedFile st = Some zipfile"
    and "fetch_ingest zipfile = FetchResponse http_ok (Some json)"
    and "\<not> http_ok \<or> \<not> ingest_ok json"
    and "ingest_error json = Some e"
  shows "uploadError (handleUpload fetch_ingest st) = Some e"
    and "\<not> uploading (handleUpload fetch_ingest st)"
  using assms by (auto simp: handleUpload_def)

lemma handleRunManualSql_failure:
  assumes "trim (manualSql st) \<noteq> []"
    and "fetch_sql (manualSql st) = FetchResponse http_ok body"
    and "\<not> http_ok \<or> truthy (resp_error (json_body body))"
  shows "handleRunManualSql fetch_sql st =
           st\<lparr> manualError := Some (query_failure_message (json_body body)),
               runningManualSql := False \<rparr>"
  using assms by (auto simp: handleRunManualSql_def)

text \<open>
  Claim C7. With a file selected: a response with HTTP ok and body \<open>ok: true\<close> sets the
  upload message to \<open>Loaded N table.\<close>/\<open>Loaded N tables.\<close> for the \<open>N\<close> tables of the
  body, clears the upload error, and the page shows that message; a failed response that
  carries an error string sets the upload error to that string, which the page shows
  (when it is not empty) in place of the message. For a manual query (not blank), a
  failed response sets \<open>manualError\<close> to the response's \<open>error\<close>, or to its
  \<open>details\<close> when it has no \<open>error\<close>, and the page shows it (when it is not empty);
  the handler returns, with nothing else of the page's state changed and
  \<open>runningManualSql\<close> false again.
\<close>

theorem data_page_feedback:
  "(selectedFile st = Some zipfile \<and> fetch_ingest zipfile = FetchResponse True (Some json) \<and>
      ingest_ok json \<longrightarrow>
      uploadMessage (handleUpload fetch_ingest st) = Some (loaded_message (length (tables json))) \<and>
      loaded_message (length (tables json)) =
        ''Loaded '' @ show_nat (length (tables json)) @
          (if length (tables json) = 1 then '' table.'' else '' tables.'') \<and>
      uploadError (handleUpload fetch_ingest st) = None \<and>
      shown_upload_message (handleUpload fetch_ingest st) =
        Some (loaded_message (length (tables json))) \<and>
      shown_upload_error (handleUpload fetch_ingest st) = None) \<and>
   (selectedFile st = Some zipfile \<and> fetch_ingest zipfile = FetchResponse http_ok (Some json) \<and>
      (\<not> http_ok \<or> \<not> ingest_ok json) \<and> ingest_error json = Some e \<longrightarrow>
      uploadError (handleUpload fetch_ingest st) = Some e \<and>
      (e \<noteq> [] \<longrightarrow> shown_upload_error (handleUpload fetch_ingest st) = Some e \<and>
                  shown_upload_message (handleUpload fetch_ingest st) = None)) \<and>
   (trim (manualSql st) \<noteq> [] \<and> fetch_sql (manualSql st) = FetchResponse q_ok body \<and>
      (\<not> q_ok \<or> truthy (resp_error (json_body body))) \<longrightarrow>
      handleRunManualSql fetch_sql st =
        st\<lparr> manualError := Some (query_failure_message (json_body body)),
            runningManualSql := False \<rparr> \<and>
      (\<forall>m. resp_error (json_body body) = Some m \<longrightarrow>
         manualError (handleRunManualSql fetch_sql st) = Some m) \<and>
      (\<forall>d. resp_error (json_body body) = None \<and> resp_details (json_body body) = Some d \<longrightarrow>
         manualError (handleRunManualSql fetch_sql st) = Some d) \<and>
      (query_failure_message (json_body body) \<noteq> [] \<longrightarrow>
         shown_manual_error (handleRunManualSql fetch_sql st) =
           Some (query_failure_message (json_body body))))"
proof (intro conjI impI)
  assume a: "selectedFile st = Some zipfile \<and> fetch_ingest zipfile = FetchResponse True (Some json) \<and>
      ingest_ok json"
  note ok = handleUpload_success [of st zipfile fetch_ingest json]
  show "uploadMessage (handleUpload fetch_ingest st) = Some (loaded_message (length (tables json)))"
    using a ok by blast
  show "uploadError (handleUpload fetch_ingest st) = None"
    using a ok by blast
  show "shown_upload_message (handleUpload fetch_ingest st) =
          Some (loaded_message (length (tables json)))"
    using a ok by (simp add: shown_upload_message_def truthy_def loaded_message_not_empty)
  show "shown_upload_error (handleUpload fetch_ingest st) = None"
    using a ok by (simp add: shown_upload_error_def truthy_def)
  show "loaded_message (length (tables json)) =
        ''Loaded '' @ show_nat (length (tables json)) @
          (if length (tables json) = 1 then '' table.'' else '' tables.'')"
    by (simp add: loaded_message_def)
next
  assume b: "selectedFile st = Some zipfile \<and> fetch_ingest zipfile = FetchResponse http_ok (Some json) \<and>
      (\<not> http_ok \<or> \<not> ingest_ok json) \<and> ingest_error json = Some e"
  then have err: "uploadError (handleUpload fetch_ingest st) = Some e"
    using handleUpload_failure(1) [of st zipfile fetch_ingest http_ok json e] by blast
  show "uploadError (handleUpload fetch_ingest st) = Some e" by (fact err)
  {
    assume "e \<noteq> []"
    then show "shown_upload_error (handleUpload fetch_ingest st) = Some e"
      using err by (simp add: shown_upload_error_def truthy_def)
  }
  {
    assume "e \<noteq> []"
    then show "shown_upload_message (handleUpload fetch_ingest st) = None"
      using err by (simp add: shown_upload_message_def truthy_def)
  }
next
  assume c: "trim (manualSql st) \<noteq> [] \<and> fetch_sql (manualSql st) = FetchResponse q_ok body \<and>
      (\<not> q_ok \<or> truthy (resp_error (json_body body)))"
  then have run: "handleRunManualSql fetch_sql st =
        st\<lparr> manualError := Some (query_failure_message (json_body body)),
            runningManualSql := False \<rparr>"
    using handleRunManualSql_failure [of st fetch_sql q_ok body] by blast
  show "handleRunManualSql fetch_sql st =
        st\<lparr> manualError := Some (query_failure_message (json_body body)),
            runningManualSql := False \<rparr>" by (fact run)
  show "\<forall>m. resp_error (json_body body) = Some m \<longrightarrow>
         manualError (handleRunManualSql fetch_sql st) = Some m"
    by (simp add: run query_failure_message_def)
  show "\<forall>d. resp_error (json_body body) = None \<and> resp_details (json_body body) = Some d \<longrightarrow>
         manualError (handleRunManualSql fetch_sql st) = Some d"
    by (simp add: run query_failure_message_def)
  {
    assume "query_failure_message (json_body body) \<noteq> []"
    then show "shown_manual_error (handleRunManualSql fetch_sql st) =
        Some (query_failure_message (json_body body))"
      by (simp add: run shown_manual_error_def truthy_def)
  }
qed

theorem data_page_feedback_witness:
  "shown_upload_message
     (handleUpload (\<lambda>f. FetchResponse True (Some sample_ingest_success)) sample_page_state) =
     Some ''Loaded 2 tables.'' \<and>
   shown_upload_error
     (handleUpload (\<lambda>f. FetchResponse False (Some sample_ingest_failure)) sample_page_state) =
     Some ''No workbooks found in archive.'' \<and>
   shown_upload_message
     (handleUpload (\<lambda>f. FetchResponse False (Some sample_ingest_failure)) sample_page_state) =
     None \<and>
   manualError
     (handleRunManualSql (\<lambda>q. FetchResponse False (Some sample_query_failure)) sample_page_state) =
     Some ''Table missing does not exist''"
proof -
  have selected: "selectedFile sample_page_state = Some ''books.zip''"
    by (simp add: sample_page_state_def)
  have two: "length (tables sample_ingest_success) = 2" "ingest_ok sample_ingest_success"
    by (simp_all add: sample_ingest_success_def)
  have msg: "loaded_message 2 = ''Loaded 2 tables.''"
    by code_simp
  have failed: "\<not> False \<or> \<not> ingest_ok sample_ingest_failure"
    "ingest_error sample_ingest_failure = Some ''No workbooks found in archive.''"
    by (simp_all add: sample_ingest_failure_def)
  have query: "trim (manualSql sample_page_state) \<noteq> []"
    "resp_error (json_body (Some sample_query_failure)) = Some ''Table missing does not exist''"
    by (simp_all add: sample_page_state_def trim_def is_js_space_def json_body_def
        sample_query_failure_def)
  have "shown_upload_message
     (handleUpload (\<lambda>f. FetchResponse True (Some sample_ingest_success)) sample_page_state) =
     Some ''Loaded 2 tables.''"
    using data_page_feedback [where st = sample_page_state and zipfile = "''books.zip''"
        and fetch_ingest = "\<lambda>f. FetchResponse True (Some sample_ingest_success)"
        and json = sample_ingest_success]
      selected two msg by simp
  moreover have "shown_upload_error
     (handleUpload (\<lambda>f. FetchResponse False (Some sample_ingest_failure)) sample_page_state) =
     Some ''No workbooks found in archive.'' \<and>
   shown_upload_message
     (handleUpload (\<lambda>f. FetchResponse False (Some sample_ingest_failure)) sample_page_state) =
     None"
    using data_page_feedback [where st = sample_page_state and zipfile = "''books.zip''"
        and fetch_ingest = "\<lambda>f. FetchResponse False (Some sample_ingest_failure)"
        and json = sample_ingest_failure and http_ok = False
        and e = "''No workbooks found in archive.''"]
      selected failed by simp
  moreover have "manualError
     (handleRunManualSql (\<lambda>q. FetchResponse False (Some sample_query_failure)) sample_page_state) =
     Some ''Table missing does not exist''"
    using data_page_feedback [where st = sample_page_state
        and fetch_sql = "\<lambda>q. FetchResponse False (Some sample_query_failure)"
        and q_ok = False and body = "Some sample_query_failure"]
      query by (simp add: query_failure_message_def)
  ultimately show ?thesis by blast
qed

section \<open>Acceptance of skill arguments\<close>

lemma coerce_type:
  assumes "coerceClaudeSkillValue rt schema v = Some p"
  shows "(schema_type schema = StringType \<longrightarrow> (\<exists>s. p = PString s)) \<and>
         (schema_type schema = NumberType \<longrightarrow> (\<exists>n. p = PNumber n)) \<and>
         (schema_type schema = BooleanType \<longrightarrow> (\<exists>b. p = PBoolean b))"
  using assms
  by (auto simp: coerceClaudeSkillValue_def Let_def
      split: ClaudeSkillArgumentType.splits js_value.splits if_splits)

lemma check_string_passes:
  "(check_string rt name schema s = Resolved (PString s)) =
     (satisfies_pattern rt schema (PString s) \<and> non_blank_if_required schema (PString s))"
  by (auto simp: check_string_def satisfies_pattern_def non_blank_if_required_def Let_def
      split: option.splits bool.splits)

lemma check_string_outcome:
  "check_string rt name schema s = Resolved (PString s) \<or>
   (\<exists>m. check_string rt name schema s = Rejected m) \<or>
   (check_string rt name schema s = Threw \<and>
      (\<exists>pat. schema_pattern schema = Some pat \<and> regexp_test rt pat s = None))"
  by (auto simp: check_string_def Let_def split: option.splits bool.splits)

lemma check_number_passes:
  "(check_number rt name schema n = Resolved (PNumber n)) =
     (satisfies_minimum schema (PNumber n) \<and> satisfies_maximum schema (PNumber n))"
  by (auto simp: check_number_def satisfies_minimum_def satisfies_maximum_def split: option.splits)

lemma check_number_outcome:
  "check_number rt name schema n = Resolved (PNumber n) \<or>
   (\<exists>m. check_number rt name schema n = Rejected m)"
  by (auto simp: check_number_def split: option.splits)

lemma check_argument_absent:
  assumes "\<not> is_present (supplied_value provided name schema)"
  shows "check_argument rt provided name schema =
           (if schema_required schema = Some True
            then Rejected (''Missing required argument '' @ quoted name @ ''.'')
            else Skipped)"
  using assms by (auto simp: check_argument_def is_present_def Let_def)

lemma check_argument_present:
  assumes "is_present (supplied_value provided name schema)"
    and "coerceClaudeSkillValue rt schema (supplied_value provided name schema) = Some p"
    and "satisfies_enum schema p"
  shows "check_argument rt provided name schema =
           (case p of
              PNumber n \<Rightarrow> check_number rt name schema n
            | PString s \<Rightarrow> check_string rt name schema s
            | PBoolean b \<Rightarrow> Resolved p)"
  using assms coerce_type [OF assms(2)]
  by (cases "schema_type schema"; cases p)
    (auto simp: check_argument_def is_present_def Let_def satisfies_enum_def split: option.splits)

lemma check_argument_not_coerced:
  assumes "is_present (supplied_value provided name schema)"
    and "coerceClaudeSkillValue rt schema (supplied_value provided name schema) = None"
  shows "\<exists>m. check_argument rt provided name schema = Rejected m"
  using assms by (auto simp: check_argument_def is_present_def Let_def)

lemma check_argument_not_in_enum:
  assumes "is_present (supplied_value provided name schema)"
    and "coerceClaudeSkillValue rt schema (supplied_value provided name schema) = Some p"
    and "\<not> satisfies_enum schema p"
  shows "\<exists>m. check_argument rt provided name schema = Rejected m"
  using assms
  by (auto simp: check_argument_def is_present_def Let_def satisfies_enum_def split: option.splits)

lemma check_argument_accepted:
  "argument_accepted rt provided (name, schema) =
     (check_argument rt provided name schema = Skipped \<or>
      (\<exists>p. check_argument rt provided name schema = Resolved p))"
proof (cases "is_present (supplied_value provided name schema)")
  case False
  then show ?thesis
    by (simp add: check_argument_absent argument_accepted_def)
next
  case present: True
  show ?thesis
  proof (cases "coerceClaudeSkillValue rt schema (supplied_value provided name schema)")
    case None
    then show ?thesis
      using present check_argument_not_coerced [OF present None]
      by (auto simp: argument_accepted_def)
  next
    case (Some p)
    show ?thesis
    proof (cases "satisfies_enum schema p")
      case False
      then show ?thesis
        using present Some check_argument_not_in_enum [OF present Some False]
        by (auto simp: argument_accepted_def)
    next
      case True
      note run = check_argument_present [OF present Some True]
      show ?thesis
      proof (cases p)
        case (PString s)
        then show ?thesis
          using present Some True run check_string_passes [of rt name schema s]
            check_string_outcome [of rt name schema s]
          by (auto simp: argument_accepted_def satisfies_minimum_def satisfies_maximum_def
              split: option.splits)
      next
        case (PNumber n)
        then show ?thesis
          using present Some True run check_number_passes [of rt name schema n]
            check_number_outcome [of rt name schema n]
          by (auto simp: argument_accepted_def satisfies_pattern_def non_blank_if_required_def
              split: option.splits)
      next
        case (PBoolean b)
        then show ?thesis
          using present Some True run
          by (auto simp: argument_accepted_def satisfies_pattern_def non_blank_if_required_def
              satisfies_minimum_def satisfies_maximum_def split: option.splits)
      qed
    qed
  qed
qed

lemma check_argument_threw:
  assumes "check_argument rt provided name schema = Threw"
  shows "\<exists>pat s. schema_pattern schema = Some pat \<and> regexp_test rt pat s = None"
proof -
  have number: "check_number rt name schema n \<noteq> Threw" for n
    by (auto simp: check_number_def split: option.splits)
  have "\<exists>s. check_string rt name schema s = Threw"
    using assms number
    by (auto simp: check_argument_def Let_def
        split: if_splits option.splits ClaudeSkillArgumentType.splits ClaudeSkillPrimitive.splits)
  then obtain s where threw: "check_string rt name schema s = Threw" by blast
  with check_string_outcome [of rt name schema s]
  have "\<exists>pat. schema_pattern schema = Some pat \<and> regexp_test rt pat s = None"
    by auto
  then show ?thesis by blast
qed

lemma validate_entries_ok:
  "(\<exists>args. validate_entries rt provided schemas resolved = Ok args) =
     list_all (argument_accepted rt provided) schemas"
proof (induction schemas arbitrary: resolved)
  case Nil
  then show ?case by simp
next
  case (Cons entry schemas)
  obtain name schema where entry: "entry = (name, schema)" by (cases entry)
  show ?case
    using Cons.IH check_argument_accepted [of rt provided name schema]
    by (cases "check_argument rt provided name schema") (auto simp: entry)
qed

lemma validate_entries_throws:
  assumes "validate_entries rt provided schemas resolved = RegExpThrows"
  shows "\<exists>entry \<in> set schemas. check_argument rt provided (fst entry) (snd entry) = Threw"
  using assms
proof (induction schemas arbitrary: resolved)
  case Nil
  then show ?case by simp
next
  case (Cons entry schemas)
  obtain name schema where entry: "entry = (name, schema)" by (cases entry)
  show ?case
    using Cons
    by (cases "check_argument rt provided name schema") (auto simp: entry)
qed

lemma validate_entries_names:
  assumes "validate_entries rt provided schemas resolved = Ok args"
  shows "set (map fst args) \<subseteq> set (map fst resolved) \<union> set (map fst schemas)"
  using assms
proof (induction schemas arbitrary: resolved)
  case Nil
  then show ?case by auto
next
  case (Cons entry schemas)
  obtain name schema where entry: "entry = (name, schema)" by (cases entry)
  show ?case
  proof (cases "check_argument rt provided name schema")
    case Skipped
    then show ?thesis using Cons by (auto simp: entry)
  next
    case (Resolved p)
    then have "validate_entries rt provided schemas (resolved @ [(name, p)]) = Ok args"
      using Cons.prems by (simp add: entry)
    from Cons.IH [OF this] show ?thesis by (auto simp: entry)
  next
    case (Rejected m)
    then show ?thesis using Cons.prems by (simp add: entry)
  next
    case Threw
    then show ?thesis using Cons.prems by (simp add: entry)
  qed
qed

lemma check_argument_cong:
  assumes "map_of provided name = map_of provided' name"
  shows "check_argument rt provided name schema = check_argument rt provided' name schema"
  using assms by (simp add: check_argument_def supplied_value_def)

lemma validate_entries_cong:
  assumes "\<forall>name \<in> set (map fst schemas). map_of provided name = map_of provided' name"
  shows "validate_entries rt provided schemas resolved = validate_entries rt provided' schemas resolved"
  using assms
proof (induction schemas arbitrary: resolved)
  case Nil
  then show ?case by simp
next
  case (Cons entry schemas)
  obtain name schema where entry: "entry = (name, schema)" by (cases entry)
  have same: "check_argument rt provided name schema = check_argument rt provided' name schema"
    using Cons.prems by (intro check_argument_cong) (simp add: entry)
  show ?case
    using Cons by (simp add: entry same split: entry_outcome.splits)
qed

lemma validate_unfold:
  "validateClaudeSkillArguments rt skill raw =
     (if declared_schemas skill = [] then
        (if provided_properties raw = [] then Ok [] else Err ''This skill does not accept arguments.'')
      else validate_entries rt (provided_properties raw) (declared_schemas skill) [])"
proof (cases raw)
  case (RawObject props)
  then show ?thesis
    by (cases "skill_arguments skill"; cases "the (skill_arguments skill)"; cases props)
      (simp_all add: validateClaudeSkillArguments_def declared_schemas_def
        provided_properties_def)
next
  case RawOther
  then show ?thesis
    by (cases "skill_arguments skill"; cases "the (skill_arguments skill)")
      (simp_all add: validateClaudeSkillArguments_def declared_schemas_def
        provided_properties_def)
qed

lemma validate_accepts:
  "(\<exists>args. validateClaudeSkillArguments rt skill raw = Ok args) = arguments_accepted rt skill raw"
proof (cases "declared_schemas skill = []")
  case True
  then show ?thesis
    by (simp add: validate_unfold arguments_accepted_def)
next
  case False
  then show ?thesis
    by (simp only: validate_unfold arguments_accepted_def if_False validate_entries_ok)
qed

lemma validate_throws_pattern:
  assumes "validateClaudeSkillArguments rt skill raw = RegExpThrows"
  shows "\<not> patterns_valid rt skill"
proof -
  have "validate_entries rt (provided_properties raw) (declared_schemas skill) [] = RegExpThrows"
    using assms by (simp add: validate_unfold split: if_splits)
  then obtain entry where entry: "entry \<in> set (declared_schemas skill)"
    and threw: "check_argument rt (provided_properties raw) (fst entry) (snd entry) = Threw"
    using validate_entries_throws by blast
  from check_argument_threw [OF threw]
  obtain pat s where "schema_pattern (snd entry) = Some pat" "regexp_test rt pat s = None"
    by blast
  with entry show ?thesis
    unfolding patterns_valid_def by blast
qed

text \<open>
  Claim C8, as amended. \<open>validateClaudeSkillArguments\<close> returns \<open>ok: true\<close> exactly
  when the arguments are accepted: for a skill with no schemas, the provided object is
  absent or has no property; for a skill with schemas, every entry meets the conditions
  above. In every other case it returns \<open>ok: false\<close> with a message or throws the
  \<open>SyntaxError\<close> of \<open>new RegExp\<close>; it returns \<open>ok: false\<close> whenever every
  declared pattern is a regular expression. The returned arguments have declared names
  only, and for a skill with schemas the result depends on the provided object only
  through the values of the declared names: other keys are ignored.
\<close>

theorem skill_argument_validation:
  "((\<exists>args. validateClaudeSkillArguments rt skill raw = Ok args) =
      arguments_accepted rt skill raw) \<and>
   (\<not> arguments_accepted rt skill raw \<longrightarrow>
      (\<exists>message. validateClaudeSkillArguments rt skill raw = Err message) \<or>
      validateClaudeSkillArguments rt skill raw = RegExpThrows) \<and>
   (\<not> arguments_accepted rt skill raw \<and> patterns_valid rt skill \<longrightarrow>
      (\<exists>message. validateClaudeSkillArguments rt skill raw = Err message)) \<and>
   (\<forall>args. validateClaudeSkillArguments rt skill raw = Ok args \<longrightarrow>
      set (map fst args) \<subseteq> set (map fst (declared_schemas skill))) \<and>
   (declared_schemas skill \<noteq> [] \<and>
      (\<forall>name \<in> set (map fst (declared_schemas skill)). map_of props name = map_of props' name) \<longrightarrow>
      validateClaudeSkillArguments rt skill (RawObject props) =
        validateClaudeSkillArguments rt skill (RawObject props'))"
proof (intro conjI)
  show accepts: "(\<exists>args. validateClaudeSkillArguments rt skill raw = Ok args) =
      arguments_accepted rt skill raw"
    by (rule validate_accepts)
  show other: "\<not> arguments_accepted rt skill raw \<longrightarrow>
      (\<exists>message. validateClaudeSkillArguments rt skill raw = Err message) \<or>
      validateClaudeSkillArguments rt skill raw = RegExpThrows"
    using accepts by (cases "validateClaudeSkillArguments rt skill raw") auto
  show "\<not> arguments_accepted rt skill raw \<and> patterns_valid rt skill \<longrightarrow>
      (\<exists>message. validateClaudeSkillArguments rt skill raw = Err message)"
    using other validate_throws_pattern [of rt skill raw] by blast
  show "\<forall>args. validateClaudeSkillArguments rt skill raw = Ok args \<longrightarrow>
      set (map fst args) \<subseteq> set (map fst (declared_schemas skill))"
  proof (intro allI impI)
    fix args
    assume ok: "validateClaudeSkillArguments rt skill raw = Ok args"
    show "set (map fst args) \<subseteq> set (map fst (declared_schemas skill))"
    proof (cases "declared_schemas skill = []")
      case True
      then show ?thesis using ok by (simp add: validate_unfold split: if_splits)
    next
      case False
      then have "validate_entries rt (provided_properties raw) (declared_schemas skill) [] = Ok args"
        using ok by (simp add: validate_unfold)
      from validate_entries_names [OF this] show ?thesis by simp
    qed
  qed
  show "declared_schemas skill \<noteq> [] \<and>
      (\<forall>name \<in> set (map fst (declared_schemas skill)). map_of props name = map_of props' name) \<longrightarrow>
      validateClaudeSkillArguments rt skill (RawObject props) =
        validateClaudeSkillArguments rt skill (RawObject props')"
  proof
    assume same: "declared_schemas skill \<noteq> [] \<and>
      (\<forall>name \<in> set (map fst (declared_schemas skill)). map_of props name = map_of props' name)"
    then have "validate_entries rt props (declared_schemas skill) [] =
               validate_entries rt props' (declared_schemas skill) []"
      by (intro validate_entries_cong) blast
    then show "validateClaudeSkillArguments rt skill (RawObject props) =
        validateClaudeSkillArguments rt skill (RawObject props')"
      using same by (simp add: validate_unfold provided_properties_def)
  qed
qed

theorem skill_argument_validation_witness:
  "arguments_accepted sample_runtime sample_skill
     (RawObject [(''region'', JString ''Bogota''), (''limit'', JString ''25''), (''note'', JNull)]) \<and>
   validateClaudeSkillArguments sample_runtime sample_skill
     (RawObject [(''region'', JString ''Bogota''), (''limit'', JString ''25''), (''note'', JNull)]) =
     Ok [(''region'', PString ''Bogota''), (''limit'', PNumber (JSFinite 25))] \<and>
   validateClaudeSkillArguments sample_runtime sample_skill
     (RawObject [(''region'', JString ''Bogota''), (''limit'', JString ''25'')]) =
     Ok [(''region'', PString ''Bogota''), (''limit'', PNumber (JSFinite 25))] \<and>
   patterns_valid sample_runtime sample_skill \<and>
   \<not> arguments_accepted sample_runtime sample_skill
     (RawObject [(''region'', JString ''Bogota''), (''limit'', JNumber (JSFinite 500))]) \<and>
   (\<exists>message. validateClaudeSkillArguments sample_runtime sample_skill
     (RawObject [(''region'', JString ''Bogota''), (''limit'', JNumber (JSFinite 500))]) =
     Err message)"
proof -
  let ?with_note = "[(''region'', JString ''Bogota''), (''limit'', JString ''25''), (''note'', JNull)]"
  let ?plain = "[(''region'', JString ''Bogota''), (''limit'', JString ''25'')]"
  let ?too_many = "RawObject [(''region'', JString ''Bogota''), (''limit'', JNumber (JSFinite 500))]"
  have accepted: "arguments_accepted sample_runtime sample_skill (RawObject ?with_note)"
    by code_simp
  have result: "validateClaudeSkillArguments sample_runtime sample_skill (RawObject ?with_note) =
      Ok [(''region'', PString ''Bogota''), (''limit'', PNumber (JSFinite 25))]"
    by code_simp
  have declared: "declared_schemas sample_skill \<noteq> []"
    "\<forall>name \<in> set (map fst (declared_schemas sample_skill)).
       map_of ?plain name = map_of ?with_note name"
    by (simp_all add: declared_schemas_def sample_skill_def)
  have same: "validateClaudeSkillArguments sample_runtime sample_skill (RawObject ?plain) =
      validateClaudeSkillArguments sample_runtime sample_skill (RawObject ?with_note)"
    using skill_argument_validation [where rt = sample_runtime and skill = sample_skill
        and props = ?plain and props' = ?with_note] declared by blast
  have valid: "patterns_valid sample_runtime sample_skill"
    by (simp add: patterns_valid_def declared_schemas_def sample_skill_def sample_schema_def
        sample_runtime_def)
  have refused: "\<not> arguments_accepted sample_runtime sample_skill ?too_many"
    by code_simp
  have message: "\<exists>message. validateClaudeSkillArguments sample_runtime sample_skill ?too_many =
      Err message"
    using skill_argument_validation [where rt = sample_runtime and skill = sample_skill
        and raw = ?too_many] valid refused by blast
  show ?thesis
    using accepted result same valid refused message by simp
qed

text \<open>
  Claim C8 as stated fails: there is a case other than acceptance in which the function
  does not return \<open>ok: false\<close>. With a schema whose pattern is not a regular
  expression, a string argument that reaches the pattern test makes \<open>new RegExp\<close>
  throw, and the function returns nothing.
\<close>

theorem invalid_pattern_throws:
  "\<not> arguments_accepted sample_runtime sample_skill_bad_pattern
       (RawObject [(''code'', JString ''x'')]) \<and>
   validateClaudeSkillArguments sample_runtime sample_skill_bad_pattern
       (RawObject [(''code'', JString ''x'')]) = RegExpThrows"
  by code_simp

section \<open>The \<open>record_fact\<close> tool is idempotent\<close>



end
